theory Spec2Isabelle
  imports Main
begin

section \<open>The wingrr execution context and engine dispatcher\<close>

text \<open>
  A shallow embedding of \<^verbatim>\<open>src/wingrr/src/wingrr.cc\<close>: the runtime-root resolution
  (\<^verbatim>\<open>_get_runtime_path\<close>), the context object (\<^verbatim>\<open>wingrr_context_t_\<close>), its factory
  and setters, and the dispatcher \<^verbatim>\<open>wingrr_exec\<close>.

  Conventions of the embedding.
  \<^item> A \<^verbatim>\<open>const char *\<close> is an address or the null pointer; the bytes behind an address
    are read from the process memory as a C string. Pointer comparison in the source
    is comparison of addresses here.
  \<^item> The process environment is a partial map from names to values.
  \<^item> \<^verbatim>\<open>assert\<close> is the active assertion of a build without \<^verbatim>\<open>NDEBUG\<close>: a failed
    assertion aborts the process, which is the \<open>Inl\<close> branch of a result.
  \<^item> Every assignment to a field of the context and every call that leaves the file
    (libuv's environment functions, the embedded module runtime, an engine adapter) is
    appended to a trace, so that what a call did can be stated, as well as what it
    returned.
  \<^item> The embedded runtime and the engine adapters are parameters of the model. They
    return an integer status and may change the process environment.
  \<^item> The mutex of the context is not part of the model: calls are sequential here.
\<close>

subsection \<open>C strings, pointers and the environment\<close>

type_synonym addr = nat

type_synonym cptr = "addr option"

abbreviation nullptr :: cptr where
  "nullptr \<equiv> None"

type_synonym environment = "string \<rightharpoonup> string"

subsection \<open>The libuv functions the file calls\<close>

text \<open>
  \<^verbatim>\<open>uv_os_getenv(name, buffer, &size)\<close>, \<^verbatim>\<open>uv_os_setenv(name, value)\<close> and
  \<^verbatim>\<open>uv_cwd(buffer, &size)\<close> belong to libuv and are modelled after its Unix
  implementation. A buffer is represented by the C string it holds.

  \<^verbatim>\<open>uv_os_getenv\<close>: a size of zero is \<^verbatim>\<open>UV_EINVAL\<close>; a variable that does not exist is
  \<^verbatim>\<open>UV_ENOENT\<close> and leaves buffer and size alone; a value that does not fit with its
  terminator is \<^verbatim>\<open>UV_ENOBUFS\<close>, leaves the buffer alone and stores the size needed;
  otherwise the value is copied and the size becomes its length. \<^verbatim>\<open>uv_os_setenv\<close> is
  taken to succeed.
\<close>

datatype uv_status = UV_OK | UV_EINVAL | UV_ENOENT | UV_ENOBUFS | UV_ERANGE | UV_EOTHER int

definition uv_os_getenv :: "environment \<Rightarrow> string \<Rightarrow> string \<Rightarrow> nat \<Rightarrow> uv_status \<times> string \<times> nat" where
  "uv_os_getenv env name buf sz =
     (if sz = 0 then (UV_EINVAL, buf, sz)
      else case env name of
        None \<Rightarrow> (UV_ENOENT, buf, sz)
      | Some var \<Rightarrow>
          if sz \<le> length var then (UV_ENOBUFS, buf, length var + 1)
          else (UV_OK, var, length var))"

definition uv_os_setenv :: "environment \<Rightarrow> string \<Rightarrow> string \<Rightarrow> environment" where
  "uv_os_setenv env name val = env(name \<mapsto> val)"




subsection \<open>Runtime root\<close>



subsection \<open>The context\<close>

text \<open>
  Modelled from the spec: the enumeration \<^verbatim>\<open>wingrr_engine_type_t\<close> is declared in
  \<^verbatim>\<open>wingrr.h\<close>, which is not among the sources. Its enumerators are the closed set of
  the specification, under the names by which \<^verbatim>\<open>wingrr_exec\<close> refers to them.
\<close>

datatype wingrr_engine_type_t =
    WINGRR_ENGINE_JAVASCRIPT
  | WINGRR_ENGINE_TYPESCRIPT
  | WINGRR_ENGINE_CSHARP
  | WINGRR_ENGINE_GO
  | WINGRR_ENGINE_JAVA
  | WINGRR_ENGINE_PYTHON
  | WINGRR_ENGINE_RUBY
  | WINGRR_ENGINE_LUA

record wingrr_context_t =
  program :: cptr
  workdir :: cptr
  type :: wingrr_engine_type_t

text \<open>
  The adapter classes of namespace \<^verbatim>\<open>wrr\<close> that \<^verbatim>\<open>wingrr_exec\<close> instantiates. Their
  headers and the embedding interface of the module runtime are not among the sources:
  what their calls return is a parameter of the model (\<open>externals\<close> below).
\<close>

datatype engine_class =
  CSharpEngine | GoEngine | JavaEngine | PythonEngine | RubyEngine | LuaEngine

datatype event =
    Store_program cptr
  | Store_workdir cptr
  | Store_type wingrr_engine_type_t
  | Getenv string
  | Setenv string string
  | Node_main int "string option list"
  | Engine_execute engine_class string string

text \<open>
  \<open>Engine_execute k w p\<close> stands for the two statements
  \<^verbatim>\<open>wrr::K engine(w); ret = engine.execute(p);\<close>.
  \<open>uninit\<close> is what an uninitialised stack buffer holds, read as a C string.
\<close>

record process =
  memory :: "addr \<Rightarrow> string"
  environ :: environment
  uninit :: string
  trace :: "event list"

record externals =
  node_main :: "int \<Rightarrow> string option list \<Rightarrow> environment \<Rightarrow> int \<times> environment"
  engine_execute :: "engine_class \<Rightarrow> string \<Rightarrow> string \<Rightarrow> environment \<Rightarrow> int \<times> environment"

datatype error = Assert_instance | Assert_program | Assert_workdir

definition emit :: "event list \<Rightarrow> process \<Rightarrow> process" where
  "emit es p = p\<lparr>trace := trace p @ es\<rparr>"

text \<open>
  \<^verbatim>\<open>wingrr_prep\<close>, lines 51 to 56: \<^verbatim>\<open>new wingrr_context_t_()\<close> value-initialises the
  object, so both pointers are null, and the type is then assigned.
\<close>

definition wingrr_prep :: "wingrr_engine_type_t \<Rightarrow> process \<Rightarrow> wingrr_context_t \<times> process" where
  "wingrr_prep t p =
     (\<lparr>program = nullptr, workdir = nullptr, type = t\<rparr>, emit [Store_type t] p)"

text \<open>\<^verbatim>\<open>wingrr_set_program\<close> and \<^verbatim>\<open>wingrr_set_workdir\<close>, lines 57 to 74.\<close>

definition wingrr_set_program ::
  "wingrr_context_t option \<Rightarrow> cptr \<Rightarrow> process \<Rightarrow> error + wingrr_context_t \<times> process" where
  "wingrr_set_program instance prog p =
     (case instance of
        None \<Rightarrow> Inl Assert_instance
      | Some c \<Rightarrow>
          if program c = prog then Inr (c, p)
          else Inr (c\<lparr>program := prog\<rparr>, emit [Store_program prog] p))"

definition wingrr_set_workdir ::
  "wingrr_context_t option \<Rightarrow> cptr \<Rightarrow> process \<Rightarrow> error + wingrr_context_t \<times> process" where
  "wingrr_set_workdir instance context p =
     (case instance of
        None \<Rightarrow> Inl Assert_instance
      | Some c \<Rightarrow>
          if workdir c = context then Inr (c, p)
          else Inr (c\<lparr>workdir := context\<rparr>, emit [Store_workdir context] p))"

subsection \<open>The dispatcher\<close>

text \<open>
  The argument vector of lines 87 to 103: the eight fixed entries, the loader pair for
  TypeScript, the program, and the terminating null pointer.
\<close>

definition node_flags :: "string list" where
  "node_flags =
     [''wingrr'',
      ''--experimental-modules'',
      ''--experimental-wasi-unstable-preview1'',
      ''--no-global-search-paths'',
      ''--no-experimental-fetch'',
      ''--no-deprecation'',
      ''--no-warnings'',
      ''--no-addons'']"

definition node_argv :: "wingrr_engine_type_t \<Rightarrow> string \<Rightarrow> string option list" where
  "node_argv t prog =
     map Some node_flags
     @ (if t = WINGRR_ENGINE_TYPESCRIPT
        then [Some ''--require'', Some ''ts-node/register/transpile-only'']
        else [])
     @ [Some prog]
     @ [None]"

text \<open>
  Lines 105 to 110. The save buffer is not initialised and the status of
  \<^verbatim>\<open>uv_os_getenv\<close> is not looked at; the third component of its result, the size, is
  not used afterwards.
\<close>

definition exec_node ::
  "externals \<Rightarrow> wingrr_context_t \<Rightarrow> string \<Rightarrow> string \<Rightarrow> process \<Rightarrow> int \<times> process" where
  "exec_node X c prog wd p =
     (let argv = node_argv (type c) prog;
          argc = int (length argv) - 1 in
      case uv_os_getenv (environ p) ''NODE_PATH'' (uninit p) 4096 of
        (r, buf, buflen) \<Rightarrow>
          (case node_main X argc argv (uv_os_setenv (environ p) ''NODE_PATH'' wd) of
             (ret, env') \<Rightarrow>
               (ret,
                emit [Getenv ''NODE_PATH'', Setenv ''NODE_PATH'' wd,
                      Node_main argc argv, Setenv ''NODE_PATH'' buf]
                  (p\<lparr>environ := uv_os_setenv env' ''NODE_PATH'' buf\<rparr>))))"

definition exec_engine ::
  "externals \<Rightarrow> engine_class \<Rightarrow> string \<Rightarrow> string \<Rightarrow> process \<Rightarrow> int \<times> process" where
  "exec_engine X k prog wd p =
     (case engine_execute X k wd prog (environ p) of
        (ret, env') \<Rightarrow> (ret, emit [Engine_execute k wd prog] (p\<lparr>environ := env'\<rparr>)))"

text \<open>
  \<^verbatim>\<open>wingrr_exec\<close>, lines 75 to 150. The branches are in the order of the source; the
  last \<open>else\<close> is the fall-through that returns the initial \<^verbatim>\<open>ret = 0\<close>. The context is
  returned as the call leaves it.
\<close>

definition wingrr_exec ::
  "externals \<Rightarrow> wingrr_context_t option \<Rightarrow> process \<Rightarrow> error + int \<times> wingrr_context_t \<times> process" where
  "wingrr_exec X instance p =
     (case instance of
        None \<Rightarrow> Inl Assert_instance
      | Some c \<Rightarrow>
     (case program c of
        None \<Rightarrow> Inl Assert_program
      | Some pa \<Rightarrow>
     (case workdir c of
        None \<Rightarrow> Inl Assert_workdir
      | Some wa \<Rightarrow>
     (let prog = memory p pa; wd = memory p wa in
      case
        (if type c = WINGRR_ENGINE_JAVASCRIPT \<or> type c = WINGRR_ENGINE_TYPESCRIPT
           then exec_node X c prog wd p
         else if type c = WINGRR_ENGINE_CSHARP then exec_engine X CSharpEngine prog wd p
         else if type c = WINGRR_ENGINE_GO then exec_engine X GoEngine prog wd p
         else if type c = WINGRR_ENGINE_JAVA then exec_engine X JavaEngine prog wd p
         else if type c = WINGRR_ENGINE_PYTHON then exec_engine X PythonEngine prog wd p
         else if type c = WINGRR_ENGINE_RUBY then exec_engine X RubyEngine prog wd p
         else if type c = WINGRR_ENGINE_LUA then exec_engine X LuaEngine prog wd p
         else (0, p))
      of (ret, p') \<Rightarrow> Inr (ret, c, p')))))"

subsection \<open>Vocabulary of the properties\<close>

text \<open>
  The routing table of the specification (section 4.3): JavaScript and TypeScript go to
  the embedded module runtime, every other engine type to the adapter of its language.
\<close>

fun adapter_for :: "wingrr_engine_type_t \<Rightarrow> engine_class option" where
  "adapter_for WINGRR_ENGINE_JAVASCRIPT = None"
| "adapter_for WINGRR_ENGINE_TYPESCRIPT = None"
| "adapter_for WINGRR_ENGINE_PYTHON = Some PythonEngine"
| "adapter_for WINGRR_ENGINE_RUBY = Some RubyEngine"
| "adapter_for WINGRR_ENGINE_LUA = Some LuaEngine"
| "adapter_for WINGRR_ENGINE_JAVA = Some JavaEngine"
| "adapter_for WINGRR_ENGINE_GO = Some GoEngine"
| "adapter_for WINGRR_ENGINE_CSHARP = Some CSharpEngine"

text \<open>The invocations of a runtime among the events a call added to the trace.\<close>

fun is_dispatch :: "event \<Rightarrow> bool" where
  "is_dispatch (Node_main argc argv) = True"
| "is_dispatch (Engine_execute k wd prog) = True"
| "is_dispatch e = False"

definition dispatched :: "process \<Rightarrow> process \<Rightarrow> event list" where
  "dispatched p p' = filter is_dispatch (drop (length (trace p)) (trace p'))"

fun is_store :: "event \<Rightarrow> bool" where
  "is_store (Store_program v) = True"
| "is_store (Store_workdir v) = True"
| "is_store (Store_type t) = True"
| "is_store e = False"

fun is_Store_type :: "event \<Rightarrow> bool" where
  "is_Store_type (Store_type t) = True"
| "is_Store_type e = False"

text \<open>What the save buffer of line 106 holds after the read of line 107.\<close>

definition saved_NODE_PATH :: "process \<Rightarrow> string" where
  "saved_NODE_PATH p = fst (snd (uv_os_getenv (environ p) ''NODE_PATH'' (uninit p) 4096))"


text \<open>Setting the program and then the working directory, as a caller configures a context.\<close>

definition configure ::
  "wingrr_context_t \<Rightarrow> cptr \<Rightarrow> cptr \<Rightarrow> process \<Rightarrow> error + wingrr_context_t \<times> process" where
  "configure c prog wd p =
     (case wingrr_set_program (Some c) prog p of
        Inl e \<Rightarrow> Inl e
      | Inr (c1, p1) \<Rightarrow> wingrr_set_workdir (Some c1) wd p1)"

text \<open>
  Sequences of calls on one context. A run stops at the first failed assertion and
  gives the state in which the failing call was made, with the error.
\<close>

datatype api_call = Set_program cptr | Set_workdir cptr | Exec

fun api_step ::
  "externals \<Rightarrow> api_call \<Rightarrow> wingrr_context_t \<times> process \<Rightarrow> error + wingrr_context_t \<times> process" where
  "api_step X (Set_program v) (c, p) = wingrr_set_program (Some c) v p"
| "api_step X (Set_workdir v) (c, p) = wingrr_set_workdir (Some c) v p"
| "api_step X Exec (c, p) =
     (case wingrr_exec X (Some c) p of
        Inl e \<Rightarrow> Inl e
      | Inr (ret, c', p') \<Rightarrow> Inr (c', p'))"

fun run ::
  "externals \<Rightarrow> api_call list \<Rightarrow> wingrr_context_t \<times> process
     \<Rightarrow> (wingrr_context_t \<times> process) \<times> error option" where
  "run X [] s = (s, None)"
| "run X (a # as) s =
     (case api_step X a s of
        Inl e \<Rightarrow> (s, Some e)
      | Inr s' \<Rightarrow> run X as s')"

subsection \<open>Concrete inputs\<close>

text \<open>
  A module runtime that returns its argument count and unsets \<^verbatim>\<open>NODE_PATH\<close>, adapters
  that return the length of the program path, a memory with three strings, and two
  processes: one with an empty environment, one whose \<^verbatim>\<open>NODE_PATH\<close> is 4096 bytes long.
\<close>

definition sample_externals :: externals where
  "sample_externals =
     \<lparr>node_main = (\<lambda>argc argv env. (argc, env(''NODE_PATH'' := None))),
      engine_execute = (\<lambda>k wd prog env. (int (length prog), env))\<rparr>"

definition sample_memory :: "addr \<Rightarrow> string" where
  "sample_memory a =
     (if a = 0 then ''hello.py'' else if a = 1 then ''/tmp/scripts'' else ''main.ts'')"

definition sample_process :: process where
  "sample_process =
     \<lparr>memory = sample_memory, environ = Map.empty, uninit = ''garbage'', trace = []\<rparr>"

definition long_path_process :: process where
  "long_path_process =
     \<lparr>memory = sample_memory,
      environ = [''NODE_PATH'' \<mapsto> replicate 4096 (CHR ''a'')],
      uninit = ''garbage'', trace = []\<rparr>"

section \<open>Properties\<close>

subsection \<open>What a call of the dispatcher does\<close>

lemma exec_engine_effect:
  "exec_engine X k prog wd p =
     (fst (engine_execute X k wd prog (environ p)),
      p\<lparr>environ := snd (engine_execute X k wd prog (environ p)),
        trace := trace p @ [Engine_execute k wd prog]\<rparr>)"
  by (simp add: exec_engine_def emit_def split: prod.splits)

lemma exec_node_effect:
  "exec_node X c prog wd p =
     (let argv = node_argv (type c) prog; argc = int (length argv) - 1;
          r = node_main X argc argv ((environ p)(''NODE_PATH'' \<mapsto> wd));
          buf = fst (snd (uv_os_getenv (environ p) ''NODE_PATH'' (uninit p) 4096))
      in (fst r,
          p\<lparr>environ := (snd r)(''NODE_PATH'' \<mapsto> buf),
            trace := trace p @ [Getenv ''NODE_PATH'', Setenv ''NODE_PATH'' wd,
                                Node_main argc argv, Setenv ''NODE_PATH'' buf]\<rparr>))"
  by (simp add: exec_node_def emit_def uv_os_setenv_def Let_def split: prod.splits)

lemma wingrr_exec_node_path:
  assumes "type c = WINGRR_ENGINE_JAVASCRIPT \<or> type c = WINGRR_ENGINE_TYPESCRIPT"
    and "program c = Some pa" and "workdir c = Some wa"
  shows "wingrr_exec X (Some c) p =
           Inr (fst (exec_node X c (memory p pa) (memory p wa) p), c,
                snd (exec_node X c (memory p pa) (memory p wa) p))"
  using assms by (auto simp add: wingrr_exec_def split: prod.splits)

lemma wingrr_exec_engine_path:
  assumes "adapter_for (type c) = Some k"
    and "program c = Some pa" and "workdir c = Some wa"
  shows "wingrr_exec X (Some c) p =
           Inr (fst (exec_engine X k (memory p pa) (memory p wa) p), c,
                snd (exec_engine X k (memory p pa) (memory p wa) p))"
  using assms by (cases "type c") (auto simp add: wingrr_exec_def split: prod.splits)

lemma adapter_for_None:
  "adapter_for t = None \<Longrightarrow> t = WINGRR_ENGINE_JAVASCRIPT \<or> t = WINGRR_ENGINE_TYPESCRIPT"
  by (cases t) simp_all

text \<open>A call that returns has left the context and the memory alone and stored nothing.\<close>

lemma wingrr_exec_Inr:
  assumes "wingrr_exec X (Some c) p = Inr (ret, c', p')"
  shows "c' = c \<and> memory p' = memory p \<and>
         (\<exists>es. trace p' = trace p @ es \<and> filter is_store es = [])"
proof -
  from assms obtain pa wa where pw: "program c = Some pa" "workdir c = Some wa"
    by (auto simp add: wingrr_exec_def split: option.splits)
  show ?thesis
  proof (cases "adapter_for (type c)")
    case (Some k)
    from wingrr_exec_engine_path [OF Some pw, of X p] assms
    show ?thesis by (auto simp add: exec_engine_effect)
  next
    case None
    from wingrr_exec_node_path [OF adapter_for_None [OF None] pw, of X p] assms
    show ?thesis by (auto simp add: exec_node_effect Let_def)
  qed
qed

subsection \<open>Routing\<close>

text \<open>
  Claim C1. For every engine type, a call of \<^verbatim>\<open>wingrr_exec\<close> on a context whose program
  and working directory are set returns, leaves the context as it was, invokes exactly
  one runtime, the one the routing table gives for the engine type of the context, and
  returns the status of that invocation unchanged. An adapter is constructed with the
  string the working-directory pointer refers to and executes the string the program
  pointer refers to; the module runtime receives the argument vector of the engine
  type and sees \<^verbatim>\<open>NODE_PATH\<close> set to the working directory.
\<close>

theorem wingrr_exec_routes:
  assumes "program c = Some pa" and "workdir c = Some wa"
  shows "\<exists>ret p'. wingrr_exec X (Some c) p = Inr (ret, c, p') \<and>
           (case adapter_for (type c) of
              Some k \<Rightarrow>
                ret = fst (engine_execute X k (memory p wa) (memory p pa) (environ p)) \<and>
                dispatched p p' = [Engine_execute k (memory p wa) (memory p pa)]
            | None \<Rightarrow>
                (let argv = node_argv (type c) (memory p pa); argc = int (length argv) - 1 in
                 ret = fst (node_main X argc argv ((environ p)(''NODE_PATH'' \<mapsto> memory p wa))) \<and>
                 dispatched p p' = [Node_main argc argv]))"
proof (cases "adapter_for (type c)")
  case (Some k)
  from wingrr_exec_engine_path [OF Some assms, of X p] Some
  show ?thesis by (simp add: exec_engine_effect dispatched_def)
next
  case None
  from wingrr_exec_node_path [OF adapter_for_None [OF None] assms, of X p] None
  show ?thesis by (simp add: exec_node_effect Let_def dispatched_def)
qed

text \<open>
  The end-to-end example of the specification: engine type Python, program
  \<^verbatim>\<open>hello.py\<close>, working directory \<^verbatim>\<open>/tmp/scripts\<close>.
\<close>

theorem wingrr_exec_routes_witness:
  "program \<lparr>program = Some 0, workdir = Some 1, type = WINGRR_ENGINE_PYTHON\<rparr> = Some 0 \<and>
   workdir \<lparr>program = Some 0, workdir = Some 1, type = WINGRR_ENGINE_PYTHON\<rparr> = Some 1 \<and>
   (\<exists>ret p'. wingrr_exec sample_externals
        (Some \<lparr>program = Some 0, workdir = Some 1, type = WINGRR_ENGINE_PYTHON\<rparr>) sample_process
          = Inr (ret, \<lparr>program = Some 0, workdir = Some 1, type = WINGRR_ENGINE_PYTHON\<rparr>, p') \<and>
      ret = fst (engine_execute sample_externals PythonEngine ''/tmp/scripts'' ''hello.py'' Map.empty) \<and>
      dispatched sample_process p' = [Engine_execute PythonEngine ''/tmp/scripts'' ''hello.py''])"
  using wingrr_exec_routes [of "\<lparr>program = Some 0, workdir = Some 1, type = WINGRR_ENGINE_PYTHON\<rparr>"
      0 1 sample_externals sample_process]
  by (simp add: sample_process_def sample_memory_def)

subsection \<open>The precondition\<close>

text \<open>
  Claim C3. A call of \<^verbatim>\<open>wingrr_exec\<close> on an existing context fails an assertion, and so
  aborts without a status, exactly when the program or the working directory of the
  context is the null pointer: with one of them unset the call never returns, and with
  both set no assertion fails.
\<close>

theorem wingrr_exec_aborts_iff_unset:
  "isl (wingrr_exec X (Some c) p) = (program c = nullptr \<or> workdir c = nullptr)"
  by (simp add: wingrr_exec_def Let_def case_prod_beta split: option.splits)

text \<open>
  Claim C9. The context that \<^verbatim>\<open>wingrr_prep\<close> returns has a null program and a null
  working directory, whatever the engine type; a call of \<^verbatim>\<open>wingrr_exec\<close> on it fails
  the assertion on the program.
\<close>

theorem wingrr_prep_unset:
  "fst (wingrr_prep t p) = \<lparr>program = nullptr, workdir = nullptr, type = t\<rparr> \<and>
   wingrr_exec X (Some (fst (wingrr_prep t p))) (snd (wingrr_prep t p)) = Inl Assert_program"
  by (simp add: wingrr_prep_def wingrr_exec_def)

subsection \<open>The argument vector of the module runtime\<close>

text \<open>
  Claim C4. For a TypeScript context whose program is \<^verbatim>\<open>main.ts\<close>, the module runtime
  is invoked once, with eleven arguments: \<^verbatim>\<open>wingrr\<close>, the seven fixed flags, the pair
  \<^verbatim>\<open>--require\<close>, \<^verbatim>\<open>ts-node/register/transpile-only\<close>, and \<^verbatim>\<open>main.ts\<close>, followed by the null
  terminator. For a JavaScript context the vector is the same without the pair.
\<close>

theorem wingrr_exec_argv:
  assumes "type c = WINGRR_ENGINE_TYPESCRIPT \<or> type c = WINGRR_ENGINE_JAVASCRIPT"
    and "program c = Some pa" and "memory p pa = ''main.ts''" and "workdir c = Some wa"
  shows "\<exists>ret p'. wingrr_exec X (Some c) p = Inr (ret, c, p') \<and>
           dispatched p p' =
             (if type c = WINGRR_ENGINE_TYPESCRIPT
              then [Node_main 11
                      [Some ''wingrr'',
                       Some ''--experimental-modules'',
                       Some ''--experimental-wasi-unstable-preview1'',
                       Some ''--no-global-search-paths'',
                       Some ''--no-experimental-fetch'',
                       Some ''--no-deprecation'',
                       Some ''--no-warnings'',
                       Some ''--no-addons'',
                       Some ''--require'',
                       Some ''ts-node/register/transpile-only'',
                       Some ''main.ts'',
                       None]]
              else [Node_main 9
                      [Some ''wingrr'',
                       Some ''--experimental-modules'',
                       Some ''--experimental-wasi-unstable-preview1'',
                       Some ''--no-global-search-paths'',
                       Some ''--no-experimental-fetch'',
                       Some ''--no-deprecation'',
                       Some ''--no-warnings'',
                       Some ''--no-addons'',
                       Some ''main.ts'',
                       None]])"
proof -
  from assms(1) have t: "type c = WINGRR_ENGINE_JAVASCRIPT \<or> type c = WINGRR_ENGINE_TYPESCRIPT"
    by blast
  show ?thesis
    using assms(1,3)
    by (auto simp add: wingrr_exec_node_path [OF t assms(2,4)] exec_node_effect Let_def
        dispatched_def node_argv_def node_flags_def)
qed

theorem wingrr_exec_argv_witness:
  "type \<lparr>program = Some 2, workdir = Some 1, type = WINGRR_ENGINE_TYPESCRIPT\<rparr>
     = WINGRR_ENGINE_TYPESCRIPT \<and>
   memory sample_process 2 = ''main.ts'' \<and>
   (\<exists>ret p'. wingrr_exec sample_externals
        (Some \<lparr>program = Some 2, workdir = Some 1, type = WINGRR_ENGINE_TYPESCRIPT\<rparr>) sample_process
          = Inr (ret, \<lparr>program = Some 2, workdir = Some 1, type = WINGRR_ENGINE_TYPESCRIPT\<rparr>, p') \<and>
      dispatched sample_process p' =
        [Node_main 11
           [Some ''wingrr'',
            Some ''--experimental-modules'',
            Some ''--experimental-wasi-unstable-preview1'',
            Some ''--no-global-search-paths'',
            Some ''--no-experimental-fetch'',
            Some ''--no-deprecation'',
            Some ''--no-warnings'',
            Some ''--no-addons'',
            Some ''--require'',
            Some ''ts-node/register/transpile-only'',
            Some ''main.ts'',
            None]])"
  using wingrr_exec_argv [of "\<lparr>program = Some 2, workdir = Some 1, type = WINGRR_ENGINE_TYPESCRIPT\<rparr>"
      2 sample_process 1 sample_externals]
  by (simp add: sample_process_def sample_memory_def)

subsection \<open>The module search path around a call of the module runtime\<close>

text \<open>
  Claim C10. For a JavaScript or TypeScript context, the last thing a call of
  \<^verbatim>\<open>wingrr_exec\<close> does is to set \<^verbatim>\<open>NODE_PATH\<close> to the contents of the save buffer,
  whatever the runtime did to the variable. The buffer holds the earlier value only
  when there was one shorter than 4096 bytes, and otherwise what the uninitialised
  buffer held; so a variable that was unset before the call is set after it.
\<close>

theorem wingrr_exec_restore_sets_NODE_PATH:
  assumes "type c = WINGRR_ENGINE_JAVASCRIPT \<or> type c = WINGRR_ENGINE_TYPESCRIPT"
    and "program c = Some pa" and "workdir c = Some wa"
  shows "\<exists>ret p'. wingrr_exec X (Some c) p = Inr (ret, c, p') \<and>
           last (trace p') = Setenv ''NODE_PATH'' (saved_NODE_PATH p) \<and>
           environ p' ''NODE_PATH'' = Some (saved_NODE_PATH p) \<and>
           saved_NODE_PATH p =
             (case environ p ''NODE_PATH'' of
                None \<Rightarrow> uninit p
              | Some v \<Rightarrow> if length v < 4096 then v else uninit p)"
  by (simp add: wingrr_exec_node_path [OF assms] exec_node_effect Let_def saved_NODE_PATH_def
      uv_os_getenv_def split: option.splits)

theorem wingrr_exec_restore_sets_NODE_PATH_witness:
  "type \<lparr>program = Some 2, workdir = Some 1, type = WINGRR_ENGINE_JAVASCRIPT\<rparr>
     = WINGRR_ENGINE_JAVASCRIPT \<and>
   environ sample_process ''NODE_PATH'' = None \<and>
   (\<exists>ret p'. wingrr_exec sample_externals
        (Some \<lparr>program = Some 2, workdir = Some 1, type = WINGRR_ENGINE_JAVASCRIPT\<rparr>) sample_process
          = Inr (ret, \<lparr>program = Some 2, workdir = Some 1, type = WINGRR_ENGINE_JAVASCRIPT\<rparr>, p') \<and>
      last (trace p') = Setenv ''NODE_PATH'' ''garbage'' \<and>
      environ p' ''NODE_PATH'' = Some ''garbage'')"
  using wingrr_exec_restore_sets_NODE_PATH
    [of "\<lparr>program = Some 2, workdir = Some 1, type = WINGRR_ENGINE_JAVASCRIPT\<rparr>"
      2 1 sample_externals sample_process]
  by (auto simp add: sample_process_def)

text \<open>
  A value of \<^verbatim>\<open>NODE_PATH\<close> that fits the save buffer is there again after the call,
  whatever the runtime returned and whatever it did to the environment.
\<close>

lemma wingrr_exec_restores_short_NODE_PATH:
  assumes "type c = WINGRR_ENGINE_JAVASCRIPT \<or> type c = WINGRR_ENGINE_TYPESCRIPT"
    and "program c = Some pa" and "workdir c = Some wa"
    and "environ p ''NODE_PATH'' = Some v" and "length v < 4096"
  shows "\<exists>ret p'. wingrr_exec X (Some c) p = Inr (ret, c, p') \<and> environ p' ''NODE_PATH'' = Some v"
  using assms(4,5)
  by (simp add: wingrr_exec_node_path [OF assms(1,2,3)] exec_node_effect Let_def uv_os_getenv_def)

text \<open>
  Claim C2. The claim is that a value \<open>V\<close> of \<^verbatim>\<open>NODE_PATH\<close> before a JavaScript or
  TypeScript call is its value after the call. For a value of 4096 bytes the read of
  line 107 does not fill the save buffer, and the call leaves \<^verbatim>\<open>NODE_PATH\<close> set to what
  the uninitialised buffer held: here \<open>V\<close> is 4096 times the letter a, and the variable
  ends as \<open>''garbage''\<close>.
\<close>

theorem wingrr_exec_long_NODE_PATH_lost:
  "environ long_path_process ''NODE_PATH'' = Some (replicate 4096 (CHR ''a'')) \<and>
   (\<exists>ret p'. wingrr_exec sample_externals
        (Some \<lparr>program = Some 2, workdir = Some 1, type = WINGRR_ENGINE_JAVASCRIPT\<rparr>)
        long_path_process
          = Inr (ret, \<lparr>program = Some 2, workdir = Some 1, type = WINGRR_ENGINE_JAVASCRIPT\<rparr>, p') \<and>
      environ p' ''NODE_PATH'' = Some ''garbage'' \<and>
      environ p' ''NODE_PATH'' \<noteq> environ long_path_process ''NODE_PATH'')"
proof -
  have "length ''garbage'' \<noteq> length (replicate 4096 (CHR ''a''))"
    by simp
  then have "''garbage'' \<noteq> replicate 4096 (CHR ''a'')"
    by metis
  then show ?thesis
    by (simp add: wingrr_exec_def exec_node_effect Let_def uv_os_getenv_def long_path_process_def)
qed

subsection \<open>The runtime root\<close>




subsection \<open>The setters\<close>

text \<open>
  Claim C6. A second call of \<^verbatim>\<open>wingrr_set_program\<close> with the pointer of the first
  changes neither the context nor the trace, so it stores nothing and everything that
  follows sees the state a single call leaves; and a call with the pointer the field
  already holds changes nothing at all. The same holds for \<^verbatim>\<open>wingrr_set_workdir\<close>.
  The value of a field is the pointer: the source compares addresses.
\<close>

theorem wingrr_set_idempotent:
  "(\<exists>c1 p1. wingrr_set_program (Some c) v p = Inr (c1, p1) \<and>
            wingrr_set_program (Some c1) v p1 = Inr (c1, p1) \<and>
            program c1 = v \<and>
            (program c = v \<longrightarrow> c1 = c \<and> p1 = p)) \<and>
   (\<exists>c1 p1. wingrr_set_workdir (Some c) v p = Inr (c1, p1) \<and>
            wingrr_set_workdir (Some c1) v p1 = Inr (c1, p1) \<and>
            workdir c1 = v \<and>
            (workdir c = v \<longrightarrow> c1 = c \<and> p1 = p))"
  by (simp add: wingrr_set_program_def wingrr_set_workdir_def)

theorem wingrr_set_idempotent_witness:
  "program \<lparr>program = Some 0, workdir = Some 1, type = WINGRR_ENGINE_LUA\<rparr> = Some 0 \<and>
   workdir \<lparr>program = Some 0, workdir = Some 1, type = WINGRR_ENGINE_LUA\<rparr> = Some 1 \<and>
   wingrr_set_program (Some \<lparr>program = Some 0, workdir = Some 1, type = WINGRR_ENGINE_LUA\<rparr>)
       (Some 0) sample_process
     = Inr (\<lparr>program = Some 0, workdir = Some 1, type = WINGRR_ENGINE_LUA\<rparr>, sample_process) \<and>
   wingrr_set_workdir (Some \<lparr>program = Some 0, workdir = Some 1, type = WINGRR_ENGINE_LUA\<rparr>)
       (Some 1) sample_process
     = Inr (\<lparr>program = Some 0, workdir = Some 1, type = WINGRR_ENGINE_LUA\<rparr>, sample_process)"
  using wingrr_set_idempotent [of "\<lparr>program = Some 0, workdir = Some 1, type = WINGRR_ENGINE_LUA\<rparr>"
      "Some 0" sample_process]
    wingrr_set_idempotent [of "\<lparr>program = Some 0, workdir = Some 1, type = WINGRR_ENGINE_LUA\<rparr>"
      "Some 1" sample_process]
  by auto

text \<open>
  A pointer to another address is stored even when the two addresses hold the same
  string.
\<close>

lemma wingrr_set_program_other_address:
  assumes "program c = Some a" and "a \<noteq> b" and "memory p a = memory p b"
  shows "wingrr_set_program (Some c) (Some b) p
           = Inr (c\<lparr>program := Some b\<rparr>, p\<lparr>trace := trace p @ [Store_program (Some b)]\<rparr>)"
  using assms(1,2) by (simp add: wingrr_set_program_def emit_def)

lemma configure_eq:
  "\<exists>p2. configure c prog wd p = Inr (\<lparr>program = prog, workdir = wd, type = type c\<rparr>, p2)"
  by (cases c) (simp add: configure_def wingrr_set_program_def wingrr_set_workdir_def)

subsection \<open>The context across calls\<close>

text \<open>
  Claim C7. A call of \<^verbatim>\<open>wingrr_exec\<close> on a context whose program and working directory
  are set returns with the context as it was and without a store to any of its fields.
  Setting a new program and a new working directory afterwards gives the very context
  that \<^verbatim>\<open>wingrr_prep\<close> with the same engine type followed by the same two setters
  gives, so a call of \<^verbatim>\<open>wingrr_exec\<close> on the one and on the other, in the same process
  state, have the same result.
\<close>

theorem wingrr_exec_preserves_context:
  assumes "program c = Some pa" and "workdir c = Some wa"
  shows "\<exists>ret p'. wingrr_exec X (Some c) p = Inr (ret, c, p') \<and>
           filter is_store (drop (length (trace p)) (trace p')) = [] \<and>
           (\<exists>c2 p2 q2.
              configure c prog wd p' = Inr (c2, p2) \<and>
              configure (fst (wingrr_prep (type c) p')) prog wd (snd (wingrr_prep (type c) p'))
                = Inr (c2, q2) \<and>
              c2 = \<lparr>program = prog, workdir = wd, type = type c\<rparr> \<and>
              (\<forall>q. wingrr_exec X (Some c2) q
                     = wingrr_exec X (Some \<lparr>program = prog, workdir = wd, type = type c\<rparr>) q))"
proof -
  have "\<not> isl (wingrr_exec X (Some c) p)"
    using assms by (simp add: wingrr_exec_def Let_def case_prod_beta)
  then obtain ret c' p' where ex: "wingrr_exec X (Some c) p = Inr (ret, c', p')"
    by (cases "wingrr_exec X (Some c) p") auto
  from wingrr_exec_Inr [OF ex] obtain es
    where c': "c' = c" and es: "trace p' = trace p @ es" "filter is_store es = []"
    by blast
  obtain p2 where p2:
    "configure c prog wd p' = Inr (\<lparr>program = prog, workdir = wd, type = type c\<rparr>, p2)"
    using configure_eq by blast
  obtain q2 where q2:
    "configure (fst (wingrr_prep (type c) p')) prog wd (snd (wingrr_prep (type c) p'))
      = Inr (\<lparr>program = prog, workdir = wd, type = type c\<rparr>, q2)"
    using configure_eq [of "fst (wingrr_prep (type c) p')" prog wd "snd (wingrr_prep (type c) p')"]
    by (auto simp add: wingrr_prep_def)
  from ex c' es p2 q2 show ?thesis by simp
qed

theorem wingrr_exec_preserves_context_witness:
  "program \<lparr>program = Some 0, workdir = Some 1, type = WINGRR_ENGINE_RUBY\<rparr> = Some 0 \<and>
   workdir \<lparr>program = Some 0, workdir = Some 1, type = WINGRR_ENGINE_RUBY\<rparr> = Some 1 \<and>
   (\<exists>ret p'. wingrr_exec sample_externals
        (Some \<lparr>program = Some 0, workdir = Some 1, type = WINGRR_ENGINE_RUBY\<rparr>) sample_process
          = Inr (ret, \<lparr>program = Some 0, workdir = Some 1, type = WINGRR_ENGINE_RUBY\<rparr>, p') \<and>
      filter is_store (trace p') = [] \<and>
      (\<exists>p2 q2.
         configure \<lparr>program = Some 0, workdir = Some 1, type = WINGRR_ENGINE_RUBY\<rparr>
             (Some 2) (Some 3) p'
           = Inr (\<lparr>program = Some 2, workdir = Some 3, type = WINGRR_ENGINE_RUBY\<rparr>, p2) \<and>
         configure (fst (wingrr_prep WINGRR_ENGINE_RUBY p')) (Some 2) (Some 3)
             (snd (wingrr_prep WINGRR_ENGINE_RUBY p'))
           = Inr (\<lparr>program = Some 2, workdir = Some 3, type = WINGRR_ENGINE_RUBY\<rparr>, q2)))"
  using wingrr_exec_preserves_context
    [of "\<lparr>program = Some 0, workdir = Some 1, type = WINGRR_ENGINE_RUBY\<rparr>" 0 1
      sample_externals sample_process "Some 2" "Some 3"]
  by (auto simp add: sample_process_def)

subsection \<open>The engine type\<close>

lemma filter_is_Store_type:
  "filter is_store es = [] \<Longrightarrow> filter is_Store_type es = []"
proof (induction es)
  case Nil
  show ?case by simp
next
  case (Cons e es)
  then show ?case by (cases e) (simp_all split: if_splits)
qed

lemma api_step_type:
  assumes "api_step X a (c, p) = Inr (c', p')"
  shows "type c' = type c \<and> filter is_Store_type (trace p') = filter is_Store_type (trace p)"
proof (cases a)
  case (Set_program v)
  with assms show ?thesis
    by (auto simp add: wingrr_set_program_def emit_def split: if_splits)
next
  case (Set_workdir v)
  with assms show ?thesis
    by (auto simp add: wingrr_set_workdir_def emit_def split: if_splits)
next
  case Exec
  with assms obtain ret where "wingrr_exec X (Some c) p = Inr (ret, c', p')"
    by (auto split: sum.splits)
  from wingrr_exec_Inr [OF this] obtain es
    where "c' = c" "trace p' = trace p @ es" "filter is_store es = []"
    by blast
  then show ?thesis by (simp add: filter_is_Store_type)
qed

lemma run_type:
  "type (fst (fst (run X calls (c, p)))) = type c \<and>
   filter is_Store_type (trace (snd (fst (run X calls (c, p))))) = filter is_Store_type (trace p)"
proof (induction calls arbitrary: c p)
  case Nil
  show ?case by simp
next
  case (Cons a calls)
  show ?case
  proof (cases "api_step X a (c, p)")
    case (Inl e)
    then show ?thesis by simp
  next
    case (Inr s')
    obtain c' p' where s': "s' = (c', p')" by (cases s')
    from api_step_type [of X a c p c' p'] Inr s' Cons.IH [of c' p']
    show ?thesis by simp
  qed
qed

text \<open>
  Claim C8. Whatever sequence of calls of the two setters and of \<^verbatim>\<open>wingrr_exec\<close> follows
  \<^verbatim>\<open>wingrr_prep t\<close>, the engine type of the context is \<open>t\<close> in the state the sequence
  reaches, and the only store to the type field since the context was requested is
  the one of \<^verbatim>\<open>wingrr_prep\<close>.
\<close>

theorem engine_type_fixed:
  "type (fst (fst (run X calls (wingrr_prep t p)))) = t \<and>
   filter is_Store_type (trace (snd (fst (run X calls (wingrr_prep t p)))))
     = filter is_Store_type (trace p) @ [Store_type t]"
  using run_type [of X calls "fst (wingrr_prep t p)" "snd (wingrr_prep t p)"]
  by (simp add: wingrr_prep_def emit_def)

end
